theory Spec2Isabelle
  imports Main "HOL-Library.Multiset"
begin

section \<open>JavaScript values, objects and completions\<close>

text \<open>
  The values that reach \<open>index.js\<close>: arguments of the exported functions, the value of
  \<open>process.env.LOCALAPPDATA\<close>, and the column values of a row handed over by the
  SQLite binding: \<open>null\<close> for NULL, a number for an INTEGER column (the flags, counters
  and timestamps of the browser tables), a string for TEXT, a Buffer for a BLOB.
\<close>

datatype jsval =
    JUndefined
  | JNull
  | JBool bool
  | JNum int
  | JStr string
  | JBlob "nat list"

text \<open>An \<open>Error\<close> object, carrying its message. Error objects are always truthy.\<close>

datatype jserror = JSError string

text \<open>How a synchronous call ends: it returns a value or throws.\<close>

datatype 'a completion = Returns 'a | Throws jserror

text \<open>
  A plain object (a row, or an object literal): its own properties in insertion order.
\<close>

type_synonym jsobj = "(string \<times> jsval) list"

text \<open>Property read \<open>obj.k\<close>: a missing property reads as \<open>undefined\<close>.\<close>

definition get :: "jsobj \<Rightarrow> string \<Rightarrow> jsval" where
  "get obj k = (case map_of obj k of None \<Rightarrow> JUndefined | Some v \<Rightarrow> v)"

text \<open>
  ECMAScript \<open>ToBoolean\<close>, used by \<open>if (x)\<close>, \<open>!x\<close> and \<open>Boolean(x)\<close>: \<open>undefined\<close>,
  \<open>null\<close>, \<open>false\<close>, \<open>0\<close> and the empty string are falsy; a Buffer is an object, so truthy.
\<close>

fun truthy :: "jsval \<Rightarrow> bool" where
  "truthy JUndefined = False"
| "truthy JNull = False"
| "truthy (JBool b) = b"
| "truthy (JNum n) = (n \<noteq> 0)"
| "truthy (JStr s) = (s \<noteq> [])"
| "truthy (JBlob bytes) = True"

definition Boolean :: "jsval \<Rightarrow> jsval" where
  "Boolean v = JBool (truthy v)"

section \<open>The environment of the module\<close>

text \<open>
  What the module calls but does not define: \<open>path.join\<close>, the environment variable
  \<open>LOCALAPPDATA\<close>, and the \<open>sqlite3\<close> binding. They are parameters of the model: a theorem
  holds whatever they do, unless its hypotheses say what it needs of them.

  A database answers a query text with the rows it yields and, possibly, the error that
  ends the query. \<open>db.all\<close> hands its callback either the error or all the rows;
  \<open>db.each\<close> calls its callback once per yielded row and once more with the error. The
  model puts that error call after the row calls; where the binding puts it is not used
  below, since the theorems on the streaming operations are about queries that end without
  an error.
\<close>

type_synonym database = "string \<Rightarrow> jsobj list \<times> jserror option"

text \<open>
  \<open>new sqlite3.Database(file, mode, callback)\<close>: the constructor throws, or it returns and
  the callback is later called with an error, or with no error once the file is open.
\<close>

datatype open_result =
    CtorThrows jserror
  | OpenFails jserror
  | Opened database

record world =
  LOCALAPPDATA :: jsval
  path_join :: "jsval list \<Rightarrow> string completion"
  sqlite_open :: "jsval \<Rightarrow> open_result"

text \<open>
  What an operation does that can be seen from outside, in the order it does it: its calls
  into the binding and what it writes to the console.
\<close>

datatype event =
    SqliteOpen jsval
  | SqliteAll string
  | SqliteEach string
  | SqliteClose
  | ConsoleError jserror
  | ConsoleLog "jsobj list"

type_synonym run = "jsval completion \<times> event list"

section \<open>getBrowserFilePath\<close>

abbreviation bs :: char where
  "bs \<equiv> CHR 0x5C"

text \<open>The three directory literals, each starting and ending with a backslash.\<close>

definition chrome_dir :: string where
  "chrome_dir = bs # ''Google'' @ bs # ''Chrome'' @ bs # ''User Data'' @ bs # ''Default'' @ [bs]"

definition opera_dir :: string where
  "opera_dir = bs # ''Opera Software'' @ bs # ''Opera Stable'' @ [bs]"

definition yandex_dir :: string where
  "yandex_dir = bs # ''Yandex'' @ bs # ''YandexBrowser'' @ bs # ''User Data'' @ bs # ''Default'' @ [bs]"

fun as_path :: "string completion \<Rightarrow> jsval completion" where
  "as_path (Returns s) = Returns (JStr s)"
| "as_path (Throws x) = Throws x"

definition getBrowserFilePath :: "world \<Rightarrow> jsval \<Rightarrow> jsval \<Rightarrow> jsval completion" where
  "getBrowserFilePath w browser fileName =
     (if browser = JStr ''chrome'' then
        as_path (path_join w [LOCALAPPDATA w, JStr chrome_dir, fileName])
      else if browser = JStr ''opera'' then
        as_path (path_join w [LOCALAPPDATA w, JStr opera_dir, fileName])
      else if browser = JStr ''yandex'' then
        as_path (path_join w [LOCALAPPDATA w, JStr yandex_dir, fileName])
      else Returns JUndefined)"

section \<open>The limited views\<close>

text \<open>The four object literals that the operations push when \<open>limited\<close> is truthy.\<close>

definition limited_login :: "jsobj \<Rightarrow> jsobj" where
  "limited_login row =
     [(''originUrl'', get row ''origin_url''),
      (''username'', get row ''username_value''),
      (''password'', get row ''password_value'')]"

definition limited_cookie :: "jsobj \<Rightarrow> jsobj" where
  "limited_cookie row =
     [(''hostKey'', get row ''host_key''),
      (''name'', get row ''name''),
      (''value'', get row ''encrypted_value''),
      (''path'', get row ''path''),
      (''expiresUtc'', get row ''expires_utc''),
      (''secure'', Boolean (get row ''secure'')),
      (''httpOnly'', Boolean (get row ''httponly'')),
      (''lastAccessUtc'', get row ''last_access_utc''),
      (''expired'', Boolean (get row ''has_expires'')),
      (''persistent'', Boolean (get row ''persistent'')),
      (''priority'', Boolean (get row ''priority''))]"

definition limited_url :: "jsobj \<Rightarrow> jsobj" where
  "limited_url row =
     [(''id'', get row ''id''),
      (''url'', get row ''url''),
      (''title'', get row ''title''),
      (''visits'', get row ''visit_count''),
      (''lastVisit'', get row ''last_visit_time'')]"

definition limited_download :: "jsobj \<Rightarrow> jsobj" where
  "limited_download row =
     [(''id'', get row ''id''),
      (''guid'', get row ''guid''),
      (''currentPath'', get row ''current_path''),
      (''targetPath'', get row ''target_path''),
      (''totalBytes'', get row ''total_bytes''),
      (''referrer'', get row ''referrer''),
      (''siteUrl'', get row ''site_url''),
      (''tabUrl'', get row ''tab_url''),
      (''mimeType'', get row ''mime_type'')]"

section \<open>The exported operations\<close>

text \<open>
  Each operation is modelled by what it gives its caller (it has no \<open>return\<close> statement
  with a value, so it returns \<open>undefined\<close> unless a call it makes throws) and by the
  events it causes, those of its callbacks included, in the order they happen. The open
  callback calls \<open>db.all\<close> or \<open>db.each\<close> and then \<open>db.close\<close> before it returns; the
  binding finishes the pending query before it closes, so the query callback runs after
  both calls. On an open error the callback returns right after \<open>console.error\<close>.
\<close>

text \<open>
  The \<open>for\<close> loop of \<open>getLoginData\<close>: \<open>loginData\<close> is the array built so far, the list
  holds the rows from \<open>rows[index]\<close> on.
\<close>

fun getLoginData_loop :: "jsval \<Rightarrow> jsobj list \<Rightarrow> jsobj list \<Rightarrow> jsobj list" where
  "getLoginData_loop limited [] loginData = loginData"
| "getLoginData_loop limited (row # rows) loginData =
     (if truthy limited then getLoginData_loop limited rows (loginData @ [limited_login row])
      else getLoginData_loop limited rows (loginData @ [row]))"

definition getLoginData :: "world \<Rightarrow> jsval \<Rightarrow> jsval \<Rightarrow> jsval \<Rightarrow> run" where
  "getLoginData w browser limited loginDataFilePath =
     (case (if \<not> truthy loginDataFilePath
            then getBrowserFilePath w browser (JStr ''Login Data'')
            else Returns loginDataFilePath) of
        Throws x \<Rightarrow> (Throws x, [])
      | Returns file \<Rightarrow>
          (case sqlite_open w file of
             CtorThrows x \<Rightarrow> (Throws x, [SqliteOpen file])
           | OpenFails error \<Rightarrow> (Returns JUndefined, [SqliteOpen file, ConsoleError error])
           | Opened db \<Rightarrow>
               (Returns JUndefined,
                [SqliteOpen file, SqliteAll ''SELECT * FROM logins'', SqliteClose] @
                (case db ''SELECT * FROM logins'' of
                   (rows, Some error) \<Rightarrow> [ConsoleError error]
                 | (rows, None) \<Rightarrow> [ConsoleLog (getLoginData_loop limited rows [])]))))"

text \<open>
  The row callbacks of \<open>getLoginDataEach\<close>, one call per yielded row: each call pushes onto the
  shared array \<open>loginData\<close> and logs the whole array.
\<close>

fun getLoginDataEach_rows :: "jsval \<Rightarrow> jsobj list \<Rightarrow> jsobj list \<Rightarrow> event list" where
  "getLoginDataEach_rows limited [] loginData = []"
| "getLoginDataEach_rows limited (row # rows) loginData =
     (if truthy limited
      then ConsoleLog (loginData @ [limited_login row]) #
           getLoginDataEach_rows limited rows (loginData @ [limited_login row])
      else ConsoleLog (loginData @ [row]) #
           getLoginDataEach_rows limited rows (loginData @ [row]))"

definition getLoginDataEach :: "world \<Rightarrow> jsval \<Rightarrow> jsval \<Rightarrow> jsval \<Rightarrow> run" where
  "getLoginDataEach w browser limited loginDataFilePath =
     (case (if \<not> truthy loginDataFilePath
            then getBrowserFilePath w browser (JStr ''Login Data'')
            else Returns loginDataFilePath) of
        Throws x \<Rightarrow> (Throws x, [])
      | Returns file \<Rightarrow>
          (case sqlite_open w file of
             CtorThrows x \<Rightarrow> (Throws x, [SqliteOpen file])
           | OpenFails error \<Rightarrow> (Returns JUndefined, [SqliteOpen file, ConsoleError error])
           | Opened db \<Rightarrow>
               (Returns JUndefined,
                [SqliteOpen file, SqliteEach ''SELECT * FROM logins'', SqliteClose] @
                (case db ''SELECT * FROM logins'' of
                   (rows, Some error) \<Rightarrow>
                     getLoginDataEach_rows limited rows [] @ [ConsoleError error]
                 | (rows, None) \<Rightarrow> getLoginDataEach_rows limited rows []))))"

text \<open>
  The \<open>for\<close> loop of \<open>getCookies\<close>: \<open>cookies\<close> is the array built so far, the list
  holds the rows from \<open>rows[index]\<close> on.
\<close>

fun getCookies_loop :: "jsval \<Rightarrow> jsobj list \<Rightarrow> jsobj list \<Rightarrow> jsobj list" where
  "getCookies_loop limited [] cookies = cookies"
| "getCookies_loop limited (row # rows) cookies =
     (if truthy limited then getCookies_loop limited rows (cookies @ [limited_cookie row])
      else getCookies_loop limited rows (cookies @ [row]))"

definition getCookies :: "world \<Rightarrow> jsval \<Rightarrow> jsval \<Rightarrow> jsval \<Rightarrow> run" where
  "getCookies w browser limited cookiesFilePath =
     (case (if \<not> truthy cookiesFilePath
            then getBrowserFilePath w browser (JStr ''Cookies'')
            else Returns cookiesFilePath) of
        Throws x \<Rightarrow> (Throws x, [])
      | Returns file \<Rightarrow>
          (case sqlite_open w file of
             CtorThrows x \<Rightarrow> (Throws x, [SqliteOpen file])
           | OpenFails error \<Rightarrow> (Returns JUndefined, [SqliteOpen file, ConsoleError error])
           | Opened db \<Rightarrow>
               (Returns JUndefined,
                [SqliteOpen file, SqliteAll ''SELECT * FROM cookies'', SqliteClose] @
                (case db ''SELECT * FROM cookies'' of
                   (rows, Some error) \<Rightarrow> [ConsoleError error]
                 | (rows, None) \<Rightarrow> [ConsoleLog (getCookies_loop limited rows [])]))))"

text \<open>
  The row callbacks of \<open>getCookiesEach\<close>, one call per yielded row: each call pushes onto the
  shared array \<open>cookies\<close> and logs the whole array.
\<close>

fun getCookiesEach_rows :: "jsval \<Rightarrow> jsobj list \<Rightarrow> jsobj list \<Rightarrow> event list" where
  "getCookiesEach_rows limited [] cookies = []"
| "getCookiesEach_rows limited (row # rows) cookies =
     (if truthy limited
      then ConsoleLog (cookies @ [limited_cookie row]) #
           getCookiesEach_rows limited rows (cookies @ [limited_cookie row])
      else ConsoleLog (cookies @ [row]) #
           getCookiesEach_rows limited rows (cookies @ [row]))"

definition getCookiesEach :: "world \<Rightarrow> jsval \<Rightarrow> jsval \<Rightarrow> jsval \<Rightarrow> run" where
  "getCookiesEach w browser limited cookiesFilePath =
     (case (if \<not> truthy cookiesFilePath
            then getBrowserFilePath w browser (JStr ''Cookies'')
            else Returns cookiesFilePath) of
        Throws x \<Rightarrow> (Throws x, [])
      | Returns file \<Rightarrow>
          (case sqlite_open w file of
             CtorThrows x \<Rightarrow> (Throws x, [SqliteOpen file])
           | OpenFails error \<Rightarrow> (Returns JUndefined, [SqliteOpen file, ConsoleError error])
           | Opened db \<Rightarrow>
               (Returns JUndefined,
                [SqliteOpen file, SqliteEach ''SELECT * FROM cookies'', SqliteClose] @
                (case db ''SELECT * FROM cookies'' of
                   (rows, Some error) \<Rightarrow>
                     getCookiesEach_rows limited rows [] @ [ConsoleError error]
                 | (rows, None) \<Rightarrow> getCookiesEach_rows limited rows []))))"

text \<open>
  The \<open>for\<close> loop of \<open>getUrlHistory\<close>: \<open>history\<close> is the array built so far, the list
  holds the rows from \<open>rows[index]\<close> on.
\<close>

fun getUrlHistory_loop :: "jsval \<Rightarrow> jsobj list \<Rightarrow> jsobj list \<Rightarrow> jsobj list" where
  "getUrlHistory_loop limited [] history = history"
| "getUrlHistory_loop limited (row # rows) history =
     (if truthy limited then getUrlHistory_loop limited rows (history @ [limited_url row])
      else getUrlHistory_loop limited rows (history @ [row]))"

definition getUrlHistory :: "world \<Rightarrow> jsval \<Rightarrow> jsval \<Rightarrow> jsval \<Rightarrow> run" where
  "getUrlHistory w browser limited historyFilePath =
     (case (if \<not> truthy historyFilePath
            then getBrowserFilePath w browser (JStr ''History'')
            else Returns historyFilePath) of
        Throws x \<Rightarrow> (Throws x, [])
      | Returns file \<Rightarrow>
          (case sqlite_open w file of
             CtorThrows x \<Rightarrow> (Throws x, [SqliteOpen file])
           | OpenFails error \<Rightarrow> (Returns JUndefined, [SqliteOpen file, ConsoleError error])
           | Opened db \<Rightarrow>
               (Returns JUndefined,
                [SqliteOpen file, SqliteAll ''SELECT * FROM urls'', SqliteClose] @
                (case db ''SELECT * FROM urls'' of
                   (rows, Some error) \<Rightarrow> [ConsoleError error]
                 | (rows, None) \<Rightarrow> [ConsoleLog (getUrlHistory_loop limited rows [])]))))"

text \<open>\<open>getDownloadHistory\<close> has no call of \<open>db.close\<close>.\<close>

text \<open>
  The \<open>for\<close> loop of \<open>getDownloadHistory\<close>: \<open>downloadHistory\<close> is the array built so far, the list
  holds the rows from \<open>rows[index]\<close> on.
\<close>

fun getDownloadHistory_loop :: "jsval \<Rightarrow> jsobj list \<Rightarrow> jsobj list \<Rightarrow> jsobj list" where
  "getDownloadHistory_loop limited [] downloadHistory = downloadHistory"
| "getDownloadHistory_loop limited (row # rows) downloadHistory =
     (if truthy limited then getDownloadHistory_loop limited rows (downloadHistory @ [limited_download row])
      else getDownloadHistory_loop limited rows (downloadHistory @ [row]))"

definition getDownloadHistory :: "world \<Rightarrow> jsval \<Rightarrow> jsval \<Rightarrow> jsval \<Rightarrow> run" where
  "getDownloadHistory w browser limited historyFilePath =
     (case (if \<not> truthy historyFilePath
            then getBrowserFilePath w browser (JStr ''History'')
            else Returns historyFilePath) of
        Throws x \<Rightarrow> (Throws x, [])
      | Returns file \<Rightarrow>
          (case sqlite_open w file of
             CtorThrows x \<Rightarrow> (Throws x, [SqliteOpen file])
           | OpenFails error \<Rightarrow> (Returns JUndefined, [SqliteOpen file, ConsoleError error])
           | Opened db \<Rightarrow>
               (Returns JUndefined,
                [SqliteOpen file, SqliteAll ''SELECT * FROM downloads''] @
                (case db ''SELECT * FROM downloads'' of
                   (rows, Some error) \<Rightarrow> [ConsoleError error]
                 | (rows, None) \<Rightarrow> [ConsoleLog (getDownloadHistory_loop limited rows [])]))))"

section \<open>The export table\<close>

datatype operation =
    GetLoginData
  | GetLoginDataEach
  | GetCookies
  | GetCookiesEach
  | GetUrlHistory
  | GetDownloadHistory

fun exports :: "operation \<Rightarrow> world \<Rightarrow> jsval \<Rightarrow> jsval \<Rightarrow> jsval \<Rightarrow> run" where
  "exports GetLoginData = getLoginData"
| "exports GetLoginDataEach = getLoginDataEach"
| "exports GetCookies = getCookies"
| "exports GetCookiesEach = getCookiesEach"
| "exports GetUrlHistory = getUrlHistory"
| "exports GetDownloadHistory = getDownloadHistory"

text \<open>The file name and the query text that each operation uses.\<close>

fun fileName_of :: "operation \<Rightarrow> string" where
  "fileName_of GetLoginData = ''Login Data''"
| "fileName_of GetLoginDataEach = ''Login Data''"
| "fileName_of GetCookies = ''Cookies''"
| "fileName_of GetCookiesEach = ''Cookies''"
| "fileName_of GetUrlHistory = ''History''"
| "fileName_of GetDownloadHistory = ''History''"

fun query_of :: "operation \<Rightarrow> string" where
  "query_of GetLoginData = ''SELECT * FROM logins''"
| "query_of GetLoginDataEach = ''SELECT * FROM logins''"
| "query_of GetCookies = ''SELECT * FROM cookies''"
| "query_of GetCookiesEach = ''SELECT * FROM cookies''"
| "query_of GetUrlHistory = ''SELECT * FROM urls''"
| "query_of GetDownloadHistory = ''SELECT * FROM downloads''"

text \<open>
  The value of the file-path variable after the first statement of an operation: the
  caller's path when it is truthy, the resolver's result otherwise.
\<close>

definition target_file :: "operation \<Rightarrow> world \<Rightarrow> jsval \<Rightarrow> jsval \<Rightarrow> jsval completion" where
  "target_file oper w browser filePath =
     (if \<not> truthy filePath
      then getBrowserFilePath w browser (JStr (fileName_of oper))
      else Returns filePath)"

text \<open>The arrays written by \<open>console.log\<close>, in order.\<close>

fun console_logs :: "event list \<Rightarrow> jsobj list list" where
  "console_logs [] = []"
| "console_logs (ConsoleLog a # es) = a # console_logs es"
| "console_logs (e # es) = console_logs es"

section \<open>A concrete environment\<close>

text \<open>
  A stand-in for \<open>path.join\<close>: like Node's, it throws a \<open>TypeError\<close> when an argument is
  not a string. On strings it concatenates, which is what \<open>path.join\<close> gives on Windows
  for an absolute directory followed by the literals above, since they bring their own
  separators.
\<close>

fun join_strings :: "jsval list \<Rightarrow> string completion" where
  "join_strings [] = Returns []"
| "join_strings (JStr s # vs) =
     (case join_strings vs of Returns t \<Rightarrow> Returns (s @ t) | Throws x \<Rightarrow> Throws x)"
| "join_strings (v # vs) = Throws (JSError ''TypeError [ERR_INVALID_ARG_TYPE]'')"

definition alice_row :: jsobj where
  "alice_row =
     [(''origin_url'', JStr ''https://example.com''),
      (''username_value'', JStr ''alice''),
      (''password_value'', JBlob [118, 49, 48, 7]),
      (''times_used'', JNum 4)]"

definition bob_row :: jsobj where
  "bob_row =
     [(''origin_url'', JStr ''https://b.org''),
      (''username_value'', JStr ''bob''),
      (''password_value'', JBlob [118, 49, 48, 9]),
      (''times_used'', JNum 0)]"

definition cookie_row :: jsobj where
  "cookie_row =
     [(''host_key'', JStr ''.example.com''),
      (''name'', JStr ''sid''),
      (''value'', JStr ''plain''),
      (''encrypted_value'', JBlob [118, 49, 48, 1]),
      (''path'', JStr ''/''),
      (''expires_utc'', JNum 13281000000000),
      (''secure'', JNum 1),
      (''httponly'', JNum 0),
      (''last_access_utc'', JNum 13280000000000),
      (''has_expires'', JNum 1),
      (''persistent'', JNum 1),
      (''priority'', JNum 2)]"

definition url_row :: jsobj where
  "url_row =
     [(''id'', JNum 1),
      (''url'', JStr ''https://a.com''),
      (''title'', JStr ''A''),
      (''visit_count'', JNum 3),
      (''typed_count'', JNum 0),
      (''last_visit_time'', JNum 13281000000000)]"

definition download_row :: jsobj where
  "download_row =
     [(''id'', JNum 7),
      (''guid'', JStr ''g-7''),
      (''current_path'', JStr ''C:/d/f.zip''),
      (''target_path'', JStr ''C:/d/f.zip''),
      (''total_bytes'', JNum 1024),
      (''referrer'', JStr ''https://a.com''),
      (''site_url'', JStr ''https://a.com''),
      (''tab_url'', JStr ''https://a.com/dl''),
      (''mime_type'', JStr ''application/zip'')]"

definition no_such_table :: "jsobj list \<times> jserror option" where
  "no_such_table = ([], Some (JSError ''SQLITE_ERROR: no such table''))"

definition login_db :: database where
  "login_db sql =
     (if sql = ''SELECT * FROM logins'' then ([alice_row, bob_row], None) else no_such_table)"

definition cookie_db :: database where
  "cookie_db sql =
     (if sql = ''SELECT * FROM cookies'' then ([cookie_row], None) else no_such_table)"

definition history_db :: database where
  "history_db sql =
     (if sql = ''SELECT * FROM urls'' then ([url_row], None)
      else if sql = ''SELECT * FROM downloads'' then ([download_row], None)
      else no_such_table)"

definition appdata :: string where
  "appdata = ''C:'' @ bs # ''Users'' @ bs # ''me'' @ bs # ''AppData'' @ bs # ''Local''"

text \<open>
  The binding of this environment throws on a file name that is not a string, as the
  \<open>sqlite3\<close> package does; it opens Chrome's three files and fails on every other path.
\<close>

fun example_open :: "jsval \<Rightarrow> open_result" where
  "example_open (JStr s) =
     (if s = appdata @ chrome_dir @ ''Login Data'' then Opened login_db
      else if s = appdata @ chrome_dir @ ''Cookies'' then Opened cookie_db
      else if s = appdata @ chrome_dir @ ''History'' then Opened history_db
      else OpenFails (JSError ''SQLITE_CANTOPEN: unable to open database file''))"
| "example_open v = CtorThrows (JSError ''TypeError: String expected'')"

definition example_world :: world where
  "example_world =
     \<lparr>LOCALAPPDATA = JStr appdata, path_join = join_strings, sqlite_open = example_open\<rparr>"

text \<open>The same environment on a system where \<open>LOCALAPPDATA\<close> is not set.\<close>

definition unset_world :: world where
  "unset_world = example_world\<lparr>LOCALAPPDATA := JUndefined\<rparr>"

section \<open>\<open>path.join\<close> on Windows\<close>

text \<open>
  On Windows, where \<open>LOCALAPPDATA\<close> is set, \<open>path.join\<close> is Node's \<open>path.win32.join\<close>.
  Both the slash and the backslash separate the segments of a path; a drive is named by a
  letter and a colon.
\<close>

definition isPathSeparator :: "char \<Rightarrow> bool" where
  "isPathSeparator c = (c = CHR ''/'' \<or> c = bs)"

definition isWindowsDeviceRoot :: "char \<Rightarrow> bool" where
  "isWindowsDeviceRoot c =
     ((65 \<le> (of_char c :: nat) \<and> (of_char c :: nat) \<le> 90) \<or>
      (97 \<le> (of_char c :: nat) \<and> (of_char c :: nat) \<le> 122))"

text \<open>
  \<open>normalizeString\<close> reads a path segment by segment: an empty segment and \<open>.\<close> are
  dropped; \<open>..\<close> removes the segment kept last, unless there is none or it is \<open>..\<close> itself,
  and then \<open>..\<close> is kept if the path may climb above its root and dropped if not; any other
  segment is kept. The segments kept are joined by backslashes.
\<close>

fun segments :: "string \<Rightarrow> string list" where
  "segments [] = [[]]"
| "segments (c # cs) =
     (if isPathSeparator c then [] # segments cs
      else (case segments cs of [] \<Rightarrow> [[c]] | s # ss \<Rightarrow> (c # s) # ss))"

fun normalize_segments :: "bool \<Rightarrow> string list \<Rightarrow> string list \<Rightarrow> string list" where
  "normalize_segments allowAboveRoot [] res = res"
| "normalize_segments allowAboveRoot (s # ss) res =
     (if s = [] \<or> s = ''.'' then normalize_segments allowAboveRoot ss res
      else if s = ''..'' then
        (if res \<noteq> [] \<and> last res \<noteq> ''..''
         then normalize_segments allowAboveRoot ss (butlast res)
         else if allowAboveRoot then normalize_segments allowAboveRoot ss (res @ [''..''])
         else normalize_segments allowAboveRoot ss res)
      else normalize_segments allowAboveRoot ss (res @ [s]))"

fun join_segments :: "string list \<Rightarrow> string" where
  "join_segments [] = []"
| "join_segments [s] = s"
| "join_segments (s # t # ss) = s @ bs # join_segments (t # ss)"

definition normalizeString :: "string \<Rightarrow> bool \<Rightarrow> string" where
  "normalizeString path allowAboveRoot =
     join_segments (normalize_segments allowAboveRoot (segments path) [])"

text \<open>
  \<open>path.win32.normalize\<close>: a path of one character is returned as it is (a slash as a
  backslash). Otherwise the root is found first: two leading separators followed by a
  server and a share name make a UNC root, one leading separator an absolute path without
  a device, a drive letter and a colon a device, absolute when a separator follows. The
  rest is normalized, a relative path that comes out empty becomes \<open>.\<close>, and a trailing
  separator of the path is kept.
\<close>

definition win32_finish :: "string \<Rightarrow> string option \<Rightarrow> bool \<Rightarrow> string \<Rightarrow> string" where
  "win32_finish path device isAbsolute rest =
     (let tail0 = (if rest \<noteq> [] then normalizeString rest (\<not> isAbsolute) else []);
          tail1 = (if tail0 = [] \<and> \<not> isAbsolute then ''.'' else tail0);
          tail2 = (if tail1 \<noteq> [] \<and> isPathSeparator (last path) then tail1 @ [bs] else tail1)
      in case device of
           None \<Rightarrow> (if isAbsolute then bs # tail2 else tail2)
         | Some d \<Rightarrow> (if isAbsolute then d @ bs # tail2 else d @ tail2))"

fun win32_normalize :: "string \<Rightarrow> string" where
  "win32_normalize [] = ''.''"
| "win32_normalize [c] = (if c = CHR ''/'' then [bs] else [c])"
| "win32_normalize (c0 # c1 # cs) =
     (if isPathSeparator c0 then
        (if isPathSeparator c1 then
           (let server = takeWhile (\<lambda>c. \<not> isPathSeparator c) cs;
                r1 = dropWhile (\<lambda>c. \<not> isPathSeparator c) cs;
                r2 = dropWhile isPathSeparator r1;
                share = takeWhile (\<lambda>c. \<not> isPathSeparator c) r2;
                r3 = dropWhile (\<lambda>c. \<not> isPathSeparator c) r2
            in if r1 \<noteq> [] \<and> server \<noteq> [] \<and> r2 \<noteq> [] then
                 (if r3 = [] then bs # bs # server @ bs # r2 @ [bs]
                  else win32_finish (c0 # c1 # cs) (Some (bs # bs # server @ bs # share)) True r3)
               else win32_finish (c0 # c1 # cs) None True (c0 # c1 # cs))
         else win32_finish (c0 # c1 # cs) None True (c1 # cs))
      else if isWindowsDeviceRoot c0 \<and> c1 = CHR '':'' then
        (if cs \<noteq> [] \<and> isPathSeparator (hd cs)
         then win32_finish (c0 # c1 # cs) (Some [c0, c1]) True (tl cs)
         else win32_finish (c0 # c1 # cs) (Some [c0, c1]) False cs)
      else win32_finish (c0 # c1 # cs) None False (c0 # c1 # cs))"

text \<open>
  \<open>path.win32.join\<close>: a \<open>TypeError\<close> for an argument that is not a string; empty arguments
  are left out and \<open>.\<close> is the result when nothing remains; the others are joined by
  backslashes. Two or more leading separators of the joined path are replaced by one
  backslash, unless the first argument starts with exactly two separators and another
  character (a UNC path). The result is normalized.
\<close>

fun validateStrings :: "jsval list \<Rightarrow> string list completion" where
  "validateStrings [] = Returns []"
| "validateStrings (JStr s # args) =
     (case validateStrings args of Returns ss \<Rightarrow> Returns (s # ss) | Throws x \<Rightarrow> Throws x)"
| "validateStrings (v # args) = Throws (JSError ''TypeError [ERR_INVALID_ARG_TYPE]'')"

definition win32_join :: "jsval list \<Rightarrow> string completion" where
  "win32_join args =
     (case validateStrings args of
        Throws x \<Rightarrow> Throws x
      | Returns ss \<Rightarrow>
          (case filter (\<lambda>s. s \<noteq> []) ss of
             [] \<Rightarrow> Returns ''.''
           | firstPart # parts \<Rightarrow>
               (let joined = join_segments (firstPart # parts);
                    needsReplace =
                      (case firstPart of
                         a # b # c # _ \<Rightarrow>
                           \<not> (isPathSeparator a \<and> isPathSeparator b \<and> \<not> isPathSeparator c)
                       | _ \<Rightarrow> True);
                    slashCount = length (takeWhile isPathSeparator joined)
                in Returns (win32_normalize
                     (if needsReplace \<and> 2 \<le> slashCount then bs # drop slashCount joined
                      else joined)))))"

text \<open>
  A segment that normalization keeps as it is, and the path of a directory on a drive:
  the drive letter, a colon, and each segment after a backslash.
\<close>

definition plain_segment :: "string \<Rightarrow> bool" where
  "plain_segment s =
     (s \<noteq> [] \<and> s \<noteq> ''.'' \<and> s \<noteq> ''..'' \<and> list_all (\<lambda>c. \<not> isPathSeparator c) s)"

definition drive_path :: "char \<Rightarrow> string list \<Rightarrow> string" where
  "drive_path d segs = d # CHR '':'' # concat (map ((#) bs) segs)"

text \<open>The concrete environment with the Windows join in the place of the stand-in.\<close>

definition windows_world :: world where
  "windows_world = example_world\<lparr>path_join := win32_join\<rparr>"

section \<open>Loops and row callbacks\<close>

text \<open>What a row contributes to the output array.\<close>

lemma getLoginData_loop_map:
  "getLoginData_loop limited rows acc =
     acc @ (if truthy limited then map limited_login rows else rows)"
  by (induction rows arbitrary: acc) simp_all

lemma getCookies_loop_map:
  "getCookies_loop limited rows acc =
     acc @ (if truthy limited then map limited_cookie rows else rows)"
  by (induction rows arbitrary: acc) simp_all

lemma getUrlHistory_loop_map:
  "getUrlHistory_loop limited rows acc =
     acc @ (if truthy limited then map limited_url rows else rows)"
  by (induction rows arbitrary: acc) simp_all

lemma getDownloadHistory_loop_map:
  "getDownloadHistory_loop limited rows acc =
     acc @ (if truthy limited then map limited_download rows else rows)"
  by (induction rows arbitrary: acc) simp_all

lemma console_logs_append: "console_logs (es @ fs) = console_logs es @ console_logs fs"
  by (induction es rule: console_logs.induct) simp_all

lemma getLoginDataEach_rows_length:
  "length (console_logs (getLoginDataEach_rows limited rows acc)) = length rows"
  by (induction rows arbitrary: acc) simp_all

lemma getCookiesEach_rows_length:
  "length (console_logs (getCookiesEach_rows limited rows acc)) = length rows"
  by (induction rows arbitrary: acc) simp_all

lemma getLoginDataEach_rows_last:
  "rows \<noteq> [] \<Longrightarrow>
   last (console_logs (getLoginDataEach_rows limited rows acc)) =
     acc @ (if truthy limited then map limited_login rows else rows)"
proof (induction rows arbitrary: acc)
  case Nil
  then show ?case by simp
next
  case (Cons row rows)
  show ?case
  proof (cases "rows = []")
    case True
    then show ?thesis by simp
  next
    case False
    have "console_logs (getLoginDataEach_rows limited rows a) \<noteq> []" for a
      using False getLoginDataEach_rows_length [of limited rows a] by auto
    then show ?thesis using Cons.IH [OF False] by simp
  qed
qed

lemma getCookiesEach_rows_last:
  "rows \<noteq> [] \<Longrightarrow>
   last (console_logs (getCookiesEach_rows limited rows acc)) =
     acc @ (if truthy limited then map limited_cookie rows else rows)"
proof (induction rows arbitrary: acc)
  case Nil
  then show ?case by simp
next
  case (Cons row rows)
  show ?case
  proof (cases "rows = []")
    case True
    then show ?thesis by simp
  next
    case False
    have "console_logs (getCookiesEach_rows limited rows a) \<noteq> []" for a
      using False getCookiesEach_rows_length [of limited rows a] by auto
    then show ?thesis using Cons.IH [OF False] by simp
  qed
qed

text \<open>The streaming callbacks log every non-empty prefix of the final array.\<close>

lemma upt_1_Suc_Suc: "[Suc 0..<Suc (Suc n)] = Suc 0 # map Suc [Suc 0..<Suc n]"
proof -
  have "[Suc 0..<Suc (Suc n)] = Suc 0 # [Suc (Suc 0)..<Suc (Suc n)]"
    by (rule upt_conv_Cons) simp
  then show ?thesis by (simp only: map_Suc_upt)
qed

lemma prefixes_step:
  "(acc @ [x]) # map (\<lambda>k. (acc @ [x]) @ take k xs) [Suc 0..<Suc (length xs)] =
     map (\<lambda>k. acc @ take k (x # xs)) [Suc 0..<Suc (length (x # xs))]"
proof -
  have "map (\<lambda>k. acc @ take k (x # xs)) [Suc 0..<Suc (length (x # xs))] =
      map (\<lambda>k. acc @ take k (x # xs)) (Suc 0 # map Suc [Suc 0..<Suc (length xs)])"
    by (simp only: upt_1_Suc_Suc length_Cons)
  also have "\<dots> = (acc @ [x]) # map (\<lambda>k. acc @ take (Suc k) (x # xs)) [Suc 0..<Suc (length xs)]"
    by (simp only: list.map map_map comp_def take_Suc_Cons take_0)
  also have "\<dots> = (acc @ [x]) # map (\<lambda>k. (acc @ [x]) @ take k xs) [Suc 0..<Suc (length xs)]"
    by (simp only: take_Suc_Cons append_assoc append.simps)
  finally show ?thesis by (rule sym)
qed

lemma getLoginDataEach_rows_prefixes:
  "console_logs (getLoginDataEach_rows limited rows acc) =
     map (\<lambda>k. acc @ take k (if truthy limited then map limited_login rows else rows))
       [Suc 0..<Suc (length rows)]"
proof (induction rows arbitrary: acc)
  case Nil
  then show ?case by simp
next
  case (Cons row rows)
  show ?case
  proof (cases "truthy limited")
    case True
    have "console_logs (getLoginDataEach_rows limited (row # rows) acc) =
        (acc @ [limited_login row]) #
        map (\<lambda>k. (acc @ [limited_login row]) @ take k (map limited_login rows))
          [Suc 0..<Suc (length (map limited_login rows))]"
      using True Cons.IH [of "acc @ [limited_login row]"] by simp
    then show ?thesis
      using True prefixes_step [of acc "limited_login row" "map limited_login rows"]
      by (simp del: upt_Suc)
  next
    case False
    have "console_logs (getLoginDataEach_rows limited (row # rows) acc) =
        (acc @ [row]) # map (\<lambda>k. (acc @ [row]) @ take k rows) [Suc 0..<Suc (length rows)]"
      using False Cons.IH [of "acc @ [row]"] by simp
    then show ?thesis
      using False prefixes_step [of acc row rows] by (simp del: upt_Suc)
  qed
qed

lemma getCookiesEach_rows_prefixes:
  "console_logs (getCookiesEach_rows limited rows acc) =
     map (\<lambda>k. acc @ take k (if truthy limited then map limited_cookie rows else rows))
       [Suc 0..<Suc (length rows)]"
proof (induction rows arbitrary: acc)
  case Nil
  then show ?case by simp
next
  case (Cons row rows)
  show ?case
  proof (cases "truthy limited")
    case True
    have "console_logs (getCookiesEach_rows limited (row # rows) acc) =
        (acc @ [limited_cookie row]) #
        map (\<lambda>k. (acc @ [limited_cookie row]) @ take k (map limited_cookie rows))
          [Suc 0..<Suc (length (map limited_cookie rows))]"
      using True Cons.IH [of "acc @ [limited_cookie row]"] by simp
    then show ?thesis
      using True prefixes_step [of acc "limited_cookie row" "map limited_cookie rows"]
      by (simp del: upt_Suc)
  next
    case False
    have "console_logs (getCookiesEach_rows limited (row # rows) acc) =
        (acc @ [row]) # map (\<lambda>k. (acc @ [row]) @ take k rows) [Suc 0..<Suc (length rows)]"
      using False Cons.IH [of "acc @ [row]"] by simp
    then show ?thesis
      using False prefixes_step [of acc row rows] by (simp del: upt_Suc)
  qed
qed

section \<open>The operations, path by path\<close>

lemma target_file_fold:
  "(if \<not> truthy p then getBrowserFilePath w b (JStr ''Login Data'') else Returns p) =
     target_file GetLoginData w b p"
  "(if \<not> truthy p then getBrowserFilePath w b (JStr ''Login Data'') else Returns p) =
     target_file GetLoginDataEach w b p"
  "(if \<not> truthy p then getBrowserFilePath w b (JStr ''Cookies'') else Returns p) =
     target_file GetCookies w b p"
  "(if \<not> truthy p then getBrowserFilePath w b (JStr ''Cookies'') else Returns p) =
     target_file GetCookiesEach w b p"
  "(if \<not> truthy p then getBrowserFilePath w b (JStr ''History'') else Returns p) =
     target_file GetUrlHistory w b p"
  "(if \<not> truthy p then getBrowserFilePath w b (JStr ''History'') else Returns p) =
     target_file GetDownloadHistory w b p"
  by (simp_all add: target_file_def cong: if_cong)

lemma target_file_Each:
  "target_file GetLoginDataEach = target_file GetLoginData"
  "target_file GetCookiesEach = target_file GetCookies"
  by (simp_all add: target_file_def fun_eq_iff)

lemma exports_resolver_throws:
  assumes "target_file oper w browser filePath = Throws x"
  shows "exports oper w browser limited filePath = (Throws x, [])"
proof (cases oper)
  case GetLoginData
  show ?thesis using assms
    unfolding GetLoginData exports.simps getLoginData_def target_file_fold(1) by simp
next
  case GetLoginDataEach
  show ?thesis using assms
    unfolding GetLoginDataEach exports.simps getLoginDataEach_def target_file_fold(2) by simp
next
  case GetCookies
  show ?thesis using assms
    unfolding GetCookies exports.simps getCookies_def target_file_fold(3) by simp
next
  case GetCookiesEach
  show ?thesis using assms
    unfolding GetCookiesEach exports.simps getCookiesEach_def target_file_fold(4) by simp
next
  case GetUrlHistory
  show ?thesis using assms
    unfolding GetUrlHistory exports.simps getUrlHistory_def target_file_fold(5) by simp
next
  case GetDownloadHistory
  show ?thesis using assms
    unfolding GetDownloadHistory exports.simps getDownloadHistory_def target_file_fold(6) by simp
qed

lemma exports_ctor_throws:
  assumes "target_file oper w browser filePath = Returns file"
    and "sqlite_open w file = CtorThrows x"
  shows "exports oper w browser limited filePath = (Throws x, [SqliteOpen file])"
proof (cases oper)
  case GetLoginData
  show ?thesis using assms
    unfolding GetLoginData exports.simps getLoginData_def target_file_fold(1) by simp
next
  case GetLoginDataEach
  show ?thesis using assms
    unfolding GetLoginDataEach exports.simps getLoginDataEach_def target_file_fold(2) by simp
next
  case GetCookies
  show ?thesis using assms
    unfolding GetCookies exports.simps getCookies_def target_file_fold(3) by simp
next
  case GetCookiesEach
  show ?thesis using assms
    unfolding GetCookiesEach exports.simps getCookiesEach_def target_file_fold(4) by simp
next
  case GetUrlHistory
  show ?thesis using assms
    unfolding GetUrlHistory exports.simps getUrlHistory_def target_file_fold(5) by simp
next
  case GetDownloadHistory
  show ?thesis using assms
    unfolding GetDownloadHistory exports.simps getDownloadHistory_def target_file_fold(6) by simp
qed

lemma exports_open_fails:
  assumes "target_file oper w browser filePath = Returns file"
    and "sqlite_open w file = OpenFails e"
  shows "exports oper w browser limited filePath =
           (Returns JUndefined, [SqliteOpen file, ConsoleError e])"
proof (cases oper)
  case GetLoginData
  show ?thesis using assms
    unfolding GetLoginData exports.simps getLoginData_def target_file_fold(1) by simp
next
  case GetLoginDataEach
  show ?thesis using assms
    unfolding GetLoginDataEach exports.simps getLoginDataEach_def target_file_fold(2) by simp
next
  case GetCookies
  show ?thesis using assms
    unfolding GetCookies exports.simps getCookies_def target_file_fold(3) by simp
next
  case GetCookiesEach
  show ?thesis using assms
    unfolding GetCookiesEach exports.simps getCookiesEach_def target_file_fold(4) by simp
next
  case GetUrlHistory
  show ?thesis using assms
    unfolding GetUrlHistory exports.simps getUrlHistory_def target_file_fold(5) by simp
next
  case GetDownloadHistory
  show ?thesis using assms
    unfolding GetDownloadHistory exports.simps getDownloadHistory_def target_file_fold(6) by simp
qed

lemma getLoginData_opened:
  assumes "target_file GetLoginData w browser filePath = Returns file"
    and "sqlite_open w file = Opened db"
  shows "getLoginData w browser limited filePath =
           (Returns JUndefined,
            [SqliteOpen file, SqliteAll ''SELECT * FROM logins'', SqliteClose] @
            (case db ''SELECT * FROM logins'' of
               (rows, Some error) \<Rightarrow> [ConsoleError error]
             | (rows, None) \<Rightarrow>
                 [ConsoleLog (if truthy limited then map limited_login rows else rows)]))"
  using assms unfolding getLoginData_def target_file_fold(1)
  by (simp add: getLoginData_loop_map split: prod.splits option.splits)

lemma getLoginDataEach_opened:
  assumes "target_file GetLoginDataEach w browser filePath = Returns file"
    and "sqlite_open w file = Opened db"
  shows "getLoginDataEach w browser limited filePath =
           (Returns JUndefined,
            [SqliteOpen file, SqliteEach ''SELECT * FROM logins'', SqliteClose] @
            (case db ''SELECT * FROM logins'' of
               (rows, Some error) \<Rightarrow>
                 getLoginDataEach_rows limited rows [] @ [ConsoleError error]
             | (rows, None) \<Rightarrow> getLoginDataEach_rows limited rows []))"
  using assms unfolding getLoginDataEach_def target_file_fold(2)
  by simp

lemma getCookies_opened:
  assumes "target_file GetCookies w browser filePath = Returns file"
    and "sqlite_open w file = Opened db"
  shows "getCookies w browser limited filePath =
           (Returns JUndefined,
            [SqliteOpen file, SqliteAll ''SELECT * FROM cookies'', SqliteClose] @
            (case db ''SELECT * FROM cookies'' of
               (rows, Some error) \<Rightarrow> [ConsoleError error]
             | (rows, None) \<Rightarrow>
                 [ConsoleLog (if truthy limited then map limited_cookie rows else rows)]))"
  using assms unfolding getCookies_def target_file_fold(3)
  by (simp add: getCookies_loop_map split: prod.splits option.splits)

lemma getCookiesEach_opened:
  assumes "target_file GetCookiesEach w browser filePath = Returns file"
    and "sqlite_open w file = Opened db"
  shows "getCookiesEach w browser limited filePath =
           (Returns JUndefined,
            [SqliteOpen file, SqliteEach ''SELECT * FROM cookies'', SqliteClose] @
            (case db ''SELECT * FROM cookies'' of
               (rows, Some error) \<Rightarrow>
                 getCookiesEach_rows limited rows [] @ [ConsoleError error]
             | (rows, None) \<Rightarrow> getCookiesEach_rows limited rows []))"
  using assms unfolding getCookiesEach_def target_file_fold(4)
  by simp

lemma getUrlHistory_opened:
  assumes "target_file GetUrlHistory w browser filePath = Returns file"
    and "sqlite_open w file = Opened db"
  shows "getUrlHistory w browser limited filePath =
           (Returns JUndefined,
            [SqliteOpen file, SqliteAll ''SELECT * FROM urls'', SqliteClose] @
            (case db ''SELECT * FROM urls'' of
               (rows, Some error) \<Rightarrow> [ConsoleError error]
             | (rows, None) \<Rightarrow>
                 [ConsoleLog (if truthy limited then map limited_url rows else rows)]))"
  using assms unfolding getUrlHistory_def target_file_fold(5)
  by (simp add: getUrlHistory_loop_map split: prod.splits option.splits)

lemma getDownloadHistory_opened:
  assumes "target_file GetDownloadHistory w browser filePath = Returns file"
    and "sqlite_open w file = Opened db"
  shows "getDownloadHistory w browser limited filePath =
           (Returns JUndefined,
            [SqliteOpen file, SqliteAll ''SELECT * FROM downloads''] @
            (case db ''SELECT * FROM downloads'' of
               (rows, Some error) \<Rightarrow> [ConsoleError error]
             | (rows, None) \<Rightarrow>
                 [ConsoleLog (if truthy limited then map limited_download rows else rows)]))"
  using assms unfolding getDownloadHistory_def target_file_fold(6)
  by (simp add: getDownloadHistory_loop_map split: prod.splits option.splits)

lemma exports_opened_returns:
  assumes "target_file oper w browser filePath = Returns file"
    and "sqlite_open w file = Opened db"
  shows "fst (exports oper w browser limited filePath) = Returns JUndefined"
    and "snd (exports oper w browser limited filePath) \<noteq> []"
    and "hd (snd (exports oper w browser limited filePath)) = SqliteOpen file"
  using assms
  by (cases oper; simp add: getLoginData_opened getLoginDataEach_opened getCookies_opened
      getCookiesEach_opened getUrlHistory_opened getDownloadHistory_opened)+

section \<open>Facts about the concrete environment\<close>

lemmas env_defs = example_world_def unset_world_def appdata_def chrome_dir_def
  login_db_def cookie_db_def history_db_def no_such_table_def

section \<open>Open failure\<close>

text \<open>
  Claim C4. When the file an operation is to read cannot be opened (the open callback gets
  an error), each of the six operations reports that error with \<open>console.error\<close>, makes
  no call of \<open>db.all\<close> or \<open>db.each\<close>, and logs no rows: the open call and the error report
  are all it does.
\<close>

theorem open_failure_reported_without_query:
  assumes "target_file oper w browser filePath = Returns file"
    and "sqlite_open w file = OpenFails e"
  shows "exports oper w browser limited filePath =
           (Returns JUndefined, [SqliteOpen file, ConsoleError e])
         \<and> ConsoleError e \<in> set (snd (exports oper w browser limited filePath))
         \<and> SqliteAll (query_of oper) \<notin> set (snd (exports oper w browser limited filePath))
         \<and> SqliteEach (query_of oper) \<notin> set (snd (exports oper w browser limited filePath))
         \<and> console_logs (snd (exports oper w browser limited filePath)) = []"
  by (simp add: exports_open_fails [OF assms])

theorem open_failure_reported_without_query_witness:
  "target_file GetCookies example_world (JStr ''chrome'') (JStr ''nowhere'') = Returns (JStr ''nowhere'')
   \<and> sqlite_open example_world (JStr ''nowhere'') =
       OpenFails (JSError ''SQLITE_CANTOPEN: unable to open database file'')
   \<and> exports GetCookies example_world (JStr ''chrome'') (JBool True) (JStr ''nowhere'') =
       (Returns JUndefined,
        [SqliteOpen (JStr ''nowhere''),
         ConsoleError (JSError ''SQLITE_CANTOPEN: unable to open database file'')])"
proof -
  have t: "target_file GetCookies example_world (JStr ''chrome'') (JStr ''nowhere'') = Returns (JStr ''nowhere'')"
    by (simp add: target_file_def)
  have o: "sqlite_open example_world (JStr ''nowhere'') =
       OpenFails (JSError ''SQLITE_CANTOPEN: unable to open database file'')"
    by (simp add: env_defs)
  show ?thesis
    using t o open_failure_reported_without_query [OF t o, of "JBool True"] by simp
qed

section \<open>The path resolver\<close>

subsection \<open>The Windows join on examples\<close>

text \<open>
  The examples of Node's documentation of \<open>path.normalize\<close> on Windows, and some joins.
\<close>

lemma win32_normalize_examples:
  "win32_normalize (''C:'' @ bs # ''temp'' @ bs # bs # ''foo'' @ bs # ''bar'' @ bs # ''..'' @ [bs]) =
     ''C:'' @ bs # ''temp'' @ bs # ''foo'' @ [bs]"
  "win32_normalize (''C:////temp'' @ bs # bs # ''/'' @ bs # ''/'' @ bs # ''/foo/bar'') =
     ''C:'' @ bs # ''temp'' @ bs # ''foo'' @ bs # ''bar''"
  "win32_normalize ''C:'' = ''C:.''"
  "win32_normalize ''//server/share/dir/..'' = bs # bs # ''server'' @ bs # ''share'' @ [bs]"
  by code_simp+

lemma win32_join_examples:
  "win32_join [JStr (''C:'' @ bs # ''foo''), JStr ''bar'', JStr ''baz/asdf'', JStr ''quux'', JStr ''..''] =
     Returns (''C:'' @ bs # ''foo'' @ bs # ''bar'' @ bs # ''baz'' @ bs # ''asdf'')"
  "win32_join [JStr ''//server'', JStr ''share''] =
     Returns (bs # bs # ''server'' @ bs # ''share'' @ [bs])"
  "win32_join [JStr ''foo'', JStr '''', JStr ''../../bar''] = Returns (''..'' @ bs # ''bar'')"
  "win32_join [] = Returns ''.''"
  "win32_join [JStr ''foo'', JUndefined] = Throws (JSError ''TypeError [ERR_INVALID_ARG_TYPE]'')"
  by code_simp+

subsection \<open>The Windows join on the path of a directory on a drive\<close>

lemma device_root_not_separator: "isWindowsDeviceRoot d \<Longrightarrow> \<not> isPathSeparator d"
  by (auto simp: isWindowsDeviceRoot_def isPathSeparator_def)

lemma segments_not_Nil: "segments cs \<noteq> []"
  by (induction cs) (auto split: list.splits)

lemma segments_no_separator:
  "list_all (\<lambda>c. \<not> isPathSeparator c) s \<Longrightarrow> segments s = [s]"
  by (induction s) auto

lemma segments_append_separator:
  "list_all (\<lambda>c. \<not> isPathSeparator c) s \<Longrightarrow> segments (s @ bs # cs) = s # segments cs"
  by (induction s) (auto simp: isPathSeparator_def)

lemma segments_join_segments:
  "ss \<noteq> [] \<Longrightarrow> list_all (list_all (\<lambda>c. \<not> isPathSeparator c)) ss \<Longrightarrow>
   segments (join_segments ss) = ss"
proof (induction ss rule: join_segments.induct)
  case 1
  then show ?case by simp
next
  case (2 s)
  then show ?case by (simp add: segments_no_separator)
next
  case (3 s t ss)
  then show ?case by (simp add: segments_append_separator)
qed

lemma separator_blocks_join_segments:
  "ss \<noteq> [] \<Longrightarrow> concat (map ((#) bs) ss) = bs # join_segments ss"
  by (induction ss rule: join_segments.induct) simp_all

lemma normalize_segments_plain:
  "list_all (\<lambda>s. s = [] \<or> plain_segment s) ss \<Longrightarrow>
   normalize_segments allowAboveRoot ss res = res @ filter (\<lambda>s. s \<noteq> []) ss"
  by (induction ss arbitrary: res) (auto simp: plain_segment_def)

lemma plain_segment_no_separator:
  "plain_segment s \<Longrightarrow> list_all (\<lambda>c. \<not> isPathSeparator c) s"
  by (simp add: plain_segment_def)

lemma win32_join_drive_path:
  assumes d: "isWindowsDeviceRoot d"
    and segs: "list_all plain_segment segs"
    and dirs: "list_all plain_segment dirs" "dirs \<noteq> []"
    and name: "plain_segment name"
  shows "win32_join [JStr (drive_path d segs), JStr (concat (map ((#) bs) dirs) @ [bs]), JStr name] =
           Returns (drive_path d (segs @ dirs @ [name]))"
proof -
  let ?all = "segs @ [] # dirs @ [[], name]"
  let ?cs = "concat (map ((#) bs) ?all)"
  let ?path = "d # CHR '':'' # ?cs"
  have nd: "\<not> isPathSeparator d"
    using d by (rule device_root_not_separator)
  have joined: "join_segments [drive_path d segs, concat (map ((#) bs) dirs) @ [bs], name] = ?path"
    by (simp add: drive_path_def)
  have nonempty: "filter (\<lambda>s. s \<noteq> [])
      [drive_path d segs, concat (map ((#) bs) dirs) @ [bs], name] =
      [drive_path d segs, concat (map ((#) bs) dirs) @ [bs], name]"
    using name by (simp add: drive_path_def plain_segment_def)
  have replace: "(case drive_path d segs of
        a # b # c # x \<Rightarrow> \<not> (isPathSeparator a \<and> isPathSeparator b \<and> \<not> isPathSeparator c)
      | _ \<Rightarrow> True)"
    using nd by (simp add: drive_path_def split: list.splits)
  have count: "length (takeWhile isPathSeparator ?path) = 0"
    using nd by simp
  have j: "win32_join [JStr (drive_path d segs), JStr (concat (map ((#) bs) dirs) @ [bs]), JStr name] =
      Returns (win32_normalize ?path)"
    unfolding win32_join_def using nonempty replace count
    by (simp add: Let_def joined del: join_segments.simps takeWhile.simps)
  have cs: "?cs = bs # join_segments ?all"
    by (rule separator_blocks_join_segments) simp
  have nosep: "list_all (list_all (\<lambda>c. \<not> isPathSeparator c)) ?all"
    using segs dirs(1) name
    by (auto simp: list_all_iff plain_segment_def)
  have seg: "segments (join_segments ?all) = ?all"
    by (rule segments_join_segments) (simp, rule nosep)
  have plain: "list_all (\<lambda>s. s = [] \<or> plain_segment s) ?all"
    using segs dirs(1) name by (auto simp: list_all_iff)
  have keep: "filter (\<lambda>s. s \<noteq> []) ss = ss" if "list_all plain_segment ss" for ss
    using that by (induction ss) (auto simp: plain_segment_def)
  have norm: "normalizeString (join_segments ?all) False =
      join_segments (segs @ dirs @ [name])"
    using name
    by (simp add: normalizeString_def seg normalize_segments_plain [OF plain] plain_segment_def
        keep [OF segs] keep [OF dirs(1)] del: join_segments.simps)
  have rest: "join_segments ?all \<noteq> []"
    using seg by auto
  have lastc: "\<not> isPathSeparator (last ?path)"
    using name by (simp add: plain_segment_def list_all_iff)
  have fin: "win32_finish ?path (Some [d, CHR '':'']) True (join_segments ?all) =
      d # CHR '':'' # bs # join_segments (segs @ dirs @ [name])"
    using rest lastc unfolding win32_finish_def
    by (simp add: Let_def norm del: join_segments.simps)
  have n: "win32_normalize ?path = d # CHR '':'' # bs # join_segments (segs @ dirs @ [name])"
    unfolding cs using nd d fin [unfolded cs]
    by (simp add: isPathSeparator_def del: join_segments.simps)
  have "bs # join_segments (segs @ dirs @ [name]) = concat (map ((#) bs) (segs @ dirs @ [name]))"
    by (rule separator_blocks_join_segments [symmetric]) simp
  then have "win32_normalize ?path = drive_path d (segs @ dirs @ [name])"
    using n by (simp add: drive_path_def del: join_segments.simps)
  then show ?thesis using j by simp
qed

subsection \<open>The resolver\<close>

lemma vendor_segments_plain:
  "list_all plain_segment [''Google'', ''Chrome'', ''User Data'', ''Default'']"
  "list_all plain_segment [''Opera Software'', ''Opera Stable'']"
  "list_all plain_segment [''Yandex'', ''YandexBrowser'', ''User Data'', ''Default'']"
  by (simp_all add: plain_segment_def isPathSeparator_def)

lemma file_names_plain:
  "name \<in> {''Login Data'', ''Cookies'', ''History''} \<Longrightarrow> plain_segment name"
  by (auto simp: plain_segment_def isPathSeparator_def)

lemma drive_path_append:
  "drive_path d (segs @ dirs) = drive_path d segs @ concat (map ((#) bs) dirs)"
  by (simp add: drive_path_def)

text \<open>
  In any environment the resolver hands \<open>path.join\<close> three arguments: \<open>LOCALAPPDATA\<close>, the
  vendor's directory and the file name.
\<close>

lemma getBrowserFilePath_calls_join:
  "getBrowserFilePath w (JStr ''chrome'') fileName =
     as_path (path_join w
       [LOCALAPPDATA w,
        JStr (bs # ''Google'' @ bs # ''Chrome'' @ bs # ''User Data'' @ bs # ''Default'' @ [bs]),
        fileName])"
  "getBrowserFilePath w (JStr ''opera'') fileName =
     as_path (path_join w
       [LOCALAPPDATA w,
        JStr (bs # ''Opera Software'' @ bs # ''Opera Stable'' @ [bs]),
        fileName])"
  "getBrowserFilePath w (JStr ''yandex'') fileName =
     as_path (path_join w
       [LOCALAPPDATA w,
        JStr (bs # ''Yandex'' @ bs # ''YandexBrowser'' @ bs # ''User Data'' @ bs # ''Default'' @ [bs]),
        fileName])"
  by (simp_all add: getBrowserFilePath_def chrome_dir_def opera_dir_def yandex_dir_def)

text \<open>
  Claim C8. On Windows, with \<open>LOCALAPPDATA\<close> the path of a directory on a drive, the resolver
  returns for \<open>chrome\<close>, \<open>opera\<close> and \<open>yandex\<close> and each of the file names \<open>Login Data\<close>,
  \<open>Cookies\<close> and \<open>History\<close> the path of that file in the vendor's directory below
  \<open>LOCALAPPDATA\<close>: \<open>Google\Chrome\User Data\Default\<close>, \<open>Opera Software\Opera Stable\<close> and
  \<open>Yandex\YandexBrowser\User Data\Default\<close>. For any other identifier, in any environment,
  it returns \<open>undefined\<close> and does not throw.
\<close>

theorem getBrowserFilePath_known_and_unknown:
  "(LOCALAPPDATA w = JStr (drive_path d segs) \<and> path_join w = win32_join
      \<and> isWindowsDeviceRoot d \<and> list_all plain_segment segs
      \<and> name \<in> {''Login Data'', ''Cookies'', ''History''} \<longrightarrow>
      getBrowserFilePath w (JStr ''chrome'') (JStr name) =
        Returns (JStr (drive_path d segs @
          bs # ''Google'' @ bs # ''Chrome'' @ bs # ''User Data'' @ bs # ''Default'' @ bs # name))
      \<and> getBrowserFilePath w (JStr ''opera'') (JStr name) =
        Returns (JStr (drive_path d segs @
          bs # ''Opera Software'' @ bs # ''Opera Stable'' @ bs # name))
      \<and> getBrowserFilePath w (JStr ''yandex'') (JStr name) =
        Returns (JStr (drive_path d segs @
          bs # ''Yandex'' @ bs # ''YandexBrowser'' @ bs # ''User Data'' @ bs # ''Default'' @
          bs # name)))
   \<and> (browser \<notin> {JStr ''chrome'', JStr ''opera'', JStr ''yandex''} \<longrightarrow>
        getBrowserFilePath w browser fileName = Returns JUndefined)"
proof (intro conjI impI)
  assume h: "LOCALAPPDATA w = JStr (drive_path d segs) \<and> path_join w = win32_join
      \<and> isWindowsDeviceRoot d \<and> list_all plain_segment segs
      \<and> name \<in> {''Login Data'', ''Cookies'', ''History''}"
  then have l: "LOCALAPPDATA w = JStr (drive_path d segs)" and j: "path_join w = win32_join"
    and d: "isWindowsDeviceRoot d" and segs: "list_all plain_segment segs"
    and name: "plain_segment name"
    by (simp_all add: file_names_plain)
  show "getBrowserFilePath w (JStr ''chrome'') (JStr name) =
        Returns (JStr (drive_path d segs @
          bs # ''Google'' @ bs # ''Chrome'' @ bs # ''User Data'' @ bs # ''Default'' @ bs # name))"
    using win32_join_drive_path [OF d segs vendor_segments_plain(1) _ name]
    by (simp add: getBrowserFilePath_def l j chrome_dir_def drive_path_append)
  show "getBrowserFilePath w (JStr ''opera'') (JStr name) =
        Returns (JStr (drive_path d segs @
          bs # ''Opera Software'' @ bs # ''Opera Stable'' @ bs # name))"
    using win32_join_drive_path [OF d segs vendor_segments_plain(2) _ name]
    by (simp add: getBrowserFilePath_def l j opera_dir_def drive_path_append)
  show "getBrowserFilePath w (JStr ''yandex'') (JStr name) =
        Returns (JStr (drive_path d segs @
          bs # ''Yandex'' @ bs # ''YandexBrowser'' @ bs # ''User Data'' @ bs # ''Default'' @
          bs # name))"
    using win32_join_drive_path [OF d segs vendor_segments_plain(3) _ name]
    by (simp add: getBrowserFilePath_def l j yandex_dir_def drive_path_append)
next
  assume "browser \<notin> {JStr ''chrome'', JStr ''opera'', JStr ''yandex''}"
  then show "getBrowserFilePath w browser fileName = Returns JUndefined"
    by (simp add: getBrowserFilePath_def)
qed

theorem getBrowserFilePath_known_and_unknown_witness:
  "LOCALAPPDATA windows_world =
     JStr (drive_path (CHR ''C'') [''Users'', ''me'', ''AppData'', ''Local''])
   \<and> path_join windows_world = win32_join
   \<and> isWindowsDeviceRoot (CHR ''C'')
   \<and> list_all plain_segment [''Users'', ''me'', ''AppData'', ''Local'']
   \<and> ''Cookies'' \<in> {''Login Data'', ''Cookies'', ''History''}
   \<and> JStr ''firefox'' \<notin> {JStr ''chrome'', JStr ''opera'', JStr ''yandex''}
   \<and> getBrowserFilePath windows_world (JStr ''chrome'') (JStr ''Cookies'') =
       Returns (JStr (''C:'' @ bs # ''Users'' @ bs # ''me'' @ bs # ''AppData'' @ bs # ''Local'' @
         bs # ''Google'' @ bs # ''Chrome'' @ bs # ''User Data'' @ bs # ''Default'' @
         bs # ''Cookies''))
   \<and> getBrowserFilePath windows_world (JStr ''opera'') (JStr ''Cookies'') =
       Returns (JStr (''C:'' @ bs # ''Users'' @ bs # ''me'' @ bs # ''AppData'' @ bs # ''Local'' @
         bs # ''Opera Software'' @ bs # ''Opera Stable'' @ bs # ''Cookies''))
   \<and> getBrowserFilePath windows_world (JStr ''yandex'') (JStr ''Cookies'') =
       Returns (JStr (''C:'' @ bs # ''Users'' @ bs # ''me'' @ bs # ''AppData'' @ bs # ''Local'' @
         bs # ''Yandex'' @ bs # ''YandexBrowser'' @ bs # ''User Data'' @ bs # ''Default'' @
         bs # ''Cookies''))
   \<and> getBrowserFilePath windows_world (JStr ''firefox'') (JStr ''Cookies'') = Returns JUndefined"
proof -
  have h1: "LOCALAPPDATA windows_world =
     JStr (drive_path (CHR ''C'') [''Users'', ''me'', ''AppData'', ''Local''])"
    by (simp add: windows_world_def example_world_def appdata_def drive_path_def)
  have h2: "path_join windows_world = win32_join"
    by (simp add: windows_world_def)
  have h3: "isWindowsDeviceRoot (CHR ''C'')"
    by (simp add: isWindowsDeviceRoot_def)
  have h4: "list_all plain_segment [''Users'', ''me'', ''AppData'', ''Local'']"
    by (simp add: plain_segment_def isPathSeparator_def)
  have h5: "''Cookies'' \<in> {''Login Data'', ''Cookies'', ''History''}"
    by simp
  have h6: "JStr ''firefox'' \<notin> {JStr ''chrome'', JStr ''opera'', JStr ''yandex''}"
    by simp
  note r = getBrowserFilePath_known_and_unknown
    [of windows_world "CHR ''C''" "[''Users'', ''me'', ''AppData'', ''Local'']" "''Cookies''"
      "JStr ''firefox''" "JStr ''Cookies''"]
  have k: "getBrowserFilePath windows_world (JStr ''chrome'') (JStr ''Cookies'') =
       Returns (JStr (''C:'' @ bs # ''Users'' @ bs # ''me'' @ bs # ''AppData'' @ bs # ''Local'' @
         bs # ''Google'' @ bs # ''Chrome'' @ bs # ''User Data'' @ bs # ''Default'' @
         bs # ''Cookies''))"
    "getBrowserFilePath windows_world (JStr ''opera'') (JStr ''Cookies'') =
       Returns (JStr (''C:'' @ bs # ''Users'' @ bs # ''me'' @ bs # ''AppData'' @ bs # ''Local'' @
         bs # ''Opera Software'' @ bs # ''Opera Stable'' @ bs # ''Cookies''))"
    "getBrowserFilePath windows_world (JStr ''yandex'') (JStr ''Cookies'') =
       Returns (JStr (''C:'' @ bs # ''Users'' @ bs # ''me'' @ bs # ''AppData'' @ bs # ''Local'' @
         bs # ''Yandex'' @ bs # ''YandexBrowser'' @ bs # ''User Data'' @ bs # ''Default'' @
         bs # ''Cookies''))"
    using r h1 h2 h3 h4 h5 by (simp_all add: drive_path_def)
  have u: "getBrowserFilePath windows_world (JStr ''firefox'') (JStr ''Cookies'') = Returns JUndefined"
    using r h6 by blast
  show ?thesis using h1 h2 h3 h4 h5 h6 k u by blast
qed

text \<open>On this path the stand-in of the concrete environment and the Windows join agree.\<close>

lemma windows_world_chrome_login:
  "getBrowserFilePath windows_world (JStr ''chrome'') (JStr ''Login Data'') =
     Returns (JStr (appdata @ chrome_dir @ ''Login Data''))"
  by (simp add: getBrowserFilePath_def windows_world_def example_world_def appdata_def
      chrome_dir_def win32_join_def win32_finish_def normalizeString_def isPathSeparator_def
      isWindowsDeviceRoot_def Let_def)

lemma example_target_login:
  "target_file GetLoginData example_world (JStr ''chrome'') JUndefined =
     Returns (JStr (appdata @ chrome_dir @ ''Login Data''))"
  by (simp add: target_file_def getBrowserFilePath_def example_world_def)

lemma example_target_history:
  "target_file GetDownloadHistory example_world (JStr ''chrome'') JUndefined =
     Returns (JStr (appdata @ chrome_dir @ ''History''))"
  "target_file GetUrlHistory example_world (JStr ''chrome'') JUndefined =
     Returns (JStr (appdata @ chrome_dir @ ''History''))"
  by (simp_all add: target_file_def getBrowserFilePath_def example_world_def)

lemma example_open_login:
  "sqlite_open example_world (JStr (appdata @ chrome_dir @ ''Login Data'')) = Opened login_db"
  by (simp add: example_world_def)

lemma example_open_history:
  "sqlite_open example_world (JStr (appdata @ chrome_dir @ ''History'')) = Opened history_db"
  by (simp add: example_world_def appdata_def chrome_dir_def)

section \<open>Closing the connection\<close>

lemma getDownloadHistory_never_closes:
  "SqliteClose \<notin> set (snd (getDownloadHistory w browser limited historyFilePath))"
  by (simp add: getDownloadHistory_def
      split: completion.splits open_result.splits prod.splits option.splits)

lemma other_operations_close:
  assumes "target_file oper w browser filePath = Returns file"
    and "sqlite_open w file = Opened db"
    and "oper \<noteq> GetDownloadHistory"
  shows "SqliteClose \<in> set (snd (exports oper w browser limited filePath))"
  using assms
  by (cases oper; simp add: getLoginData_opened getLoginDataEach_opened getCookies_opened
      getCookiesEach_opened getUrlHistory_opened)

text \<open>
  Claim C1. Every operation is to close the connection it opened. On Chrome's History file,
  which opens and answers both queries, \<open>getUrlHistory\<close> calls \<open>db.close\<close> after
  \<open>db.all\<close>, and \<open>getDownloadHistory\<close> makes the same calls but for \<open>db.close\<close>: its
  connection stays open.
\<close>

theorem getDownloadHistory_leaves_connection_open:
  "getDownloadHistory example_world (JStr ''chrome'') JUndefined JUndefined =
     (Returns JUndefined,
      [SqliteOpen (JStr (appdata @ chrome_dir @ ''History'')),
       SqliteAll ''SELECT * FROM downloads'',
       ConsoleLog [download_row]])
   \<and> getUrlHistory example_world (JStr ''chrome'') JUndefined JUndefined =
     (Returns JUndefined,
      [SqliteOpen (JStr (appdata @ chrome_dir @ ''History'')),
       SqliteAll ''SELECT * FROM urls'',
       SqliteClose,
       ConsoleLog [url_row]])"
  by (simp add: getDownloadHistory_opened [OF example_target_history(1) example_open_history]
      getUrlHistory_opened [OF example_target_history(2) example_open_history]
      history_db_def)

section \<open>Applying a limited view twice\<close>

text \<open>
  Claim C2 says that a limited view applied to a record it produced gives that record back.
  It does not: the view reads the native column names, which a limited login record does
  not have.
\<close>

theorem limited_login_not_idempotent:
  "limited_login (limited_login alice_row) \<noteq> limited_login alice_row"
  by (simp add: limited_login_def alice_row_def get_def)

text \<open>
  Claim C2, amended. Applied to a record it produced, a limited view gives a record with the
  same field names, in which a field keeps its value only when its name is also the name of
  the native column it is read from (for cookies \<open>name\<close>, \<open>path\<close>, \<open>secure\<close>, \<open>persistent\<close>,
  \<open>priority\<close>; for visited pages \<open>id\<close>, \<open>url\<close>, \<open>title\<close>; for downloads \<open>id\<close>, \<open>guid\<close>,
  \<open>referrer\<close>); every other field becomes \<open>undefined\<close>, or \<open>false\<close> for the cookie flags
  \<open>httpOnly\<close> and \<open>expired\<close>. From the second application on nothing changes any more.
\<close>

theorem limited_view_applied_twice:
  "limited_login (limited_login row) =
     [(''originUrl'', JUndefined), (''username'', JUndefined), (''password'', JUndefined)]
   \<and> limited_cookie (limited_cookie row) =
     [(''hostKey'', JUndefined),
      (''name'', get row ''name''),
      (''value'', JUndefined),
      (''path'', get row ''path''),
      (''expiresUtc'', JUndefined),
      (''secure'', Boolean (get row ''secure'')),
      (''httpOnly'', JBool False),
      (''lastAccessUtc'', JUndefined),
      (''expired'', JBool False),
      (''persistent'', Boolean (get row ''persistent'')),
      (''priority'', Boolean (get row ''priority''))]
   \<and> limited_url (limited_url row) =
     [(''id'', get row ''id''),
      (''url'', get row ''url''),
      (''title'', get row ''title''),
      (''visits'', JUndefined),
      (''lastVisit'', JUndefined)]
   \<and> limited_download (limited_download row) =
     [(''id'', get row ''id''),
      (''guid'', get row ''guid''),
      (''currentPath'', JUndefined),
      (''targetPath'', JUndefined),
      (''totalBytes'', JUndefined),
      (''referrer'', get row ''referrer''),
      (''siteUrl'', JUndefined),
      (''tabUrl'', JUndefined),
      (''mimeType'', JUndefined)]
   \<and> limited_login (limited_login (limited_login row)) = limited_login (limited_login row)
   \<and> limited_cookie (limited_cookie (limited_cookie row)) = limited_cookie (limited_cookie row)
   \<and> limited_url (limited_url (limited_url row)) = limited_url (limited_url row)
   \<and> limited_download (limited_download (limited_download row)) =
       limited_download (limited_download row)"
proof -
  have l: "limited_login (limited_login r) =
     [(''originUrl'', JUndefined), (''username'', JUndefined), (''password'', JUndefined)]" for r
    by (simp add: limited_login_def get_def)
  have c: "limited_cookie (limited_cookie r) =
     [(''hostKey'', JUndefined),
      (''name'', get r ''name''),
      (''value'', JUndefined),
      (''path'', get r ''path''),
      (''expiresUtc'', JUndefined),
      (''secure'', Boolean (get r ''secure'')),
      (''httpOnly'', JBool False),
      (''lastAccessUtc'', JUndefined),
      (''expired'', JBool False),
      (''persistent'', Boolean (get r ''persistent'')),
      (''priority'', Boolean (get r ''priority''))]" for r
    by (simp add: limited_cookie_def get_def Boolean_def)
  have u: "limited_url (limited_url r) =
     [(''id'', get r ''id''),
      (''url'', get r ''url''),
      (''title'', get r ''title''),
      (''visits'', JUndefined),
      (''lastVisit'', JUndefined)]" for r
    by (simp add: limited_url_def get_def)
  have d: "limited_download (limited_download r) =
     [(''id'', get r ''id''),
      (''guid'', get r ''guid''),
      (''currentPath'', JUndefined),
      (''targetPath'', JUndefined),
      (''totalBytes'', JUndefined),
      (''referrer'', get r ''referrer''),
      (''siteUrl'', JUndefined),
      (''tabUrl'', JUndefined),
      (''mimeType'', JUndefined)]" for r
    by (simp add: limited_download_def get_def)
  have l3: "limited_login (limited_login (limited_login row)) = limited_login (limited_login row)"
    unfolding l by (simp add: limited_login_def get_def)
  have c3: "limited_cookie (limited_cookie (limited_cookie row)) = limited_cookie (limited_cookie row)"
    unfolding c by (simp add: limited_cookie_def get_def Boolean_def)
  have u3: "limited_url (limited_url (limited_url row)) = limited_url (limited_url row)"
    unfolding u by (simp add: limited_url_def get_def)
  have d3: "limited_download (limited_download (limited_download row)) =
       limited_download (limited_download row)"
    unfolding d by (simp add: limited_download_def get_def)
  show ?thesis
    using l [of row] c [of row] u [of row] d [of row] l3 c3 u3 d3 by (simp only: simp_thms)
qed

lemma example_target_login_each:
  "target_file GetLoginDataEach example_world (JStr ''chrome'') JUndefined =
     Returns (JStr (appdata @ chrome_dir @ ''Login Data''))"
  by (simp add: target_file_def getBrowserFilePath_def example_world_def)

lemma example_login_query: "login_db ''SELECT * FROM logins'' = ([alice_row, bob_row], None)"
  by (simp add: login_db_def)

section \<open>Bulk and streaming\<close>

text \<open>
  Claim C3 says that the bulk and the streaming operation put out the same multiset of
  records. On a login store with two rows the bulk operation logs one array of two records,
  and the streaming operation logs its array after each row, three records in all.
\<close>

theorem bulk_and_streaming_log_differently:
  "console_logs (snd (getLoginData example_world (JStr ''chrome'') JUndefined JUndefined)) =
     [[alice_row, bob_row]]
   \<and> console_logs (snd (getLoginDataEach example_world (JStr ''chrome'') JUndefined JUndefined)) =
     [[alice_row], [alice_row, bob_row]]
   \<and> mset (concat (console_logs
        (snd (getLoginData example_world (JStr ''chrome'') JUndefined JUndefined)))) \<noteq>
     mset (concat (console_logs
        (snd (getLoginDataEach example_world (JStr ''chrome'') JUndefined JUndefined))))"
proof -
  have b: "console_logs (snd (getLoginData example_world (JStr ''chrome'') JUndefined JUndefined)) =
     [[alice_row, bob_row]]"
    by (simp add: getLoginData_opened [OF example_target_login example_open_login]
        example_login_query)
  have s: "console_logs (snd (getLoginDataEach example_world (JStr ''chrome'') JUndefined JUndefined)) =
     [[alice_row], [alice_row, bob_row]]"
    by (simp add: getLoginDataEach_opened [OF example_target_login_each example_open_login]
        example_login_query)
  have "mset (concat [[alice_row, bob_row]]) \<noteq>
        mset (concat [[alice_row], [alice_row, bob_row]])"
  proof
    assume "mset (concat [[alice_row, bob_row]]) =
        mset (concat [[alice_row], [alice_row, bob_row]])"
    then have "size (mset (concat [[alice_row, bob_row]])) =
        size (mset (concat [[alice_row], [alice_row, bob_row]]))"
      by (rule arg_cong)
    then show False by simp
  qed
  then show ?thesis unfolding b s by (simp only: simp_thms)
qed

text \<open>
  Claim C3, amended. For logins and for cookies, when the store opens and the query yields
  at least one row and no error, the array that the streaming operation logs last holds the
  same records in the same order (so the same multiset) as the one array that the bulk
  operation logs, whatever the limited flag; the streaming operation logs once per row, each
  time the prefix of that array built so far.
\<close>

theorem streaming_final_log_equals_bulk_log:
  assumes "(bulk, streaming, view) = (GetLoginData, GetLoginDataEach, limited_login)
           \<or> (bulk, streaming, view) = (GetCookies, GetCookiesEach, limited_cookie)"
    and "target_file bulk w browser filePath = Returns file"
    and "sqlite_open w file = Opened db"
    and "db (query_of bulk) = (rows, None)"
    and "rows \<noteq> []"
  shows "console_logs (snd (exports bulk w browser limited filePath)) =
           [if truthy limited then map view rows else rows]
         \<and> last (console_logs (snd (exports streaming w browser limited filePath))) =
           (if truthy limited then map view rows else rows)
         \<and> mset (last (console_logs (snd (exports streaming w browser limited filePath)))) =
           mset (last (console_logs (snd (exports bulk w browser limited filePath))))
         \<and> console_logs (snd (exports streaming w browser limited filePath)) =
           map (\<lambda>k. take k (if truthy limited then map view rows else rows))
             [1..<Suc (length rows)]"
  using assms(1)
proof
  assume "(bulk, streaming, view) = (GetLoginData, GetLoginDataEach, limited_login)"
  then have eq: "bulk = GetLoginData" "streaming = GetLoginDataEach" "view = limited_login"
    by simp_all
  have t: "target_file GetLoginData w browser filePath = Returns file"
    using assms(2) eq by simp
  have t': "target_file GetLoginDataEach w browser filePath = Returns file"
    using t by (simp add: target_file_Each)
  have q: "db ''SELECT * FROM logins'' = (rows, None)"
    using assms(4) eq by simp
  have b: "console_logs (snd (getLoginData w browser limited filePath)) =
      [if truthy limited then map limited_login rows else rows]"
    by (simp add: getLoginData_opened [OF t assms(3)] q)
  have s: "console_logs (snd (getLoginDataEach w browser limited filePath)) =
      console_logs (getLoginDataEach_rows limited rows [])"
    by (simp add: getLoginDataEach_opened [OF t' assms(3)] q)
  have l: "last (console_logs (snd (getLoginDataEach w browser limited filePath))) =
      (if truthy limited then map limited_login rows else rows)"
    unfolding s using getLoginDataEach_rows_last [OF assms(5), of limited "[]"] by simp
  have p: "console_logs (snd (getLoginDataEach w browser limited filePath)) =
      map (\<lambda>k. take k (if truthy limited then map limited_login rows else rows))
        [1..<Suc (length rows)]"
    unfolding s using getLoginDataEach_rows_prefixes [of limited rows "[]"]
    by (simp del: upt_Suc)
  have m: "mset (last (console_logs (snd (getLoginDataEach w browser limited filePath)))) =
      mset (last (console_logs (snd (getLoginData w browser limited filePath))))"
    unfolding l b by simp
  show ?thesis unfolding eq exports.simps using b l m p by blast
next
  assume "(bulk, streaming, view) = (GetCookies, GetCookiesEach, limited_cookie)"
  then have eq: "bulk = GetCookies" "streaming = GetCookiesEach" "view = limited_cookie"
    by simp_all
  have t: "target_file GetCookies w browser filePath = Returns file"
    using assms(2) eq by simp
  have t': "target_file GetCookiesEach w browser filePath = Returns file"
    using t by (simp add: target_file_Each)
  have q: "db ''SELECT * FROM cookies'' = (rows, None)"
    using assms(4) eq by simp
  have b: "console_logs (snd (getCookies w browser limited filePath)) =
      [if truthy limited then map limited_cookie rows else rows]"
    by (simp add: getCookies_opened [OF t assms(3)] q)
  have s: "console_logs (snd (getCookiesEach w browser limited filePath)) =
      console_logs (getCookiesEach_rows limited rows [])"
    by (simp add: getCookiesEach_opened [OF t' assms(3)] q)
  have l: "last (console_logs (snd (getCookiesEach w browser limited filePath))) =
      (if truthy limited then map limited_cookie rows else rows)"
    unfolding s using getCookiesEach_rows_last [OF assms(5), of limited "[]"] by simp
  have p: "console_logs (snd (getCookiesEach w browser limited filePath)) =
      map (\<lambda>k. take k (if truthy limited then map limited_cookie rows else rows))
        [1..<Suc (length rows)]"
    unfolding s using getCookiesEach_rows_prefixes [of limited rows "[]"]
    by (simp del: upt_Suc)
  have m: "mset (last (console_logs (snd (getCookiesEach w browser limited filePath)))) =
      mset (last (console_logs (snd (getCookies w browser limited filePath))))"
    unfolding l b by simp
  show ?thesis unfolding eq exports.simps using b l m p by blast
qed

theorem streaming_final_log_equals_bulk_log_witness:
  "((GetLoginData, GetLoginDataEach, limited_login) = (GetLoginData, GetLoginDataEach, limited_login)
     \<or> (GetLoginData, GetLoginDataEach, limited_login) = (GetCookies, GetCookiesEach, limited_cookie))
   \<and> target_file GetLoginData example_world (JStr ''chrome'') JUndefined =
       Returns (JStr (appdata @ chrome_dir @ ''Login Data''))
   \<and> sqlite_open example_world (JStr (appdata @ chrome_dir @ ''Login Data'')) = Opened login_db
   \<and> login_db (query_of GetLoginData) = ([alice_row, bob_row], None)
   \<and> [alice_row, bob_row] \<noteq> []
   \<and> console_logs (snd (exports GetLoginData example_world (JStr ''chrome'') (JNum 1) JUndefined)) =
       [[limited_login alice_row, limited_login bob_row]]
   \<and> last (console_logs
        (snd (exports GetLoginDataEach example_world (JStr ''chrome'') (JNum 1) JUndefined))) =
       [limited_login alice_row, limited_login bob_row]
   \<and> console_logs
        (snd (exports GetLoginDataEach example_world (JStr ''chrome'') (JNum 1) JUndefined)) =
       [[limited_login alice_row], [limited_login alice_row, limited_login bob_row]]"
proof -
  have h1: "(GetLoginData, GetLoginDataEach, limited_login) = (GetLoginData, GetLoginDataEach, limited_login)
     \<or> (GetLoginData, GetLoginDataEach, limited_login) = (GetCookies, GetCookiesEach, limited_cookie)"
    by simp
  have h4: "login_db (query_of GetLoginData) = ([alice_row, bob_row], None)"
    by (simp add: login_db_def)
  have h5: "[alice_row, bob_row] \<noteq> []"
    by simp
  have u: "[1..<Suc (length [alice_row, bob_row])] = [1, 2]"
    by (simp add: upt_rec)
  note r = streaming_final_log_equals_bulk_log
        [OF h1 example_target_login example_open_login h4 h5, of "JNum 1",
         unfolded u]
  have c1: "console_logs (snd (exports GetLoginData example_world (JStr ''chrome'') (JNum 1) JUndefined)) =
       [[limited_login alice_row, limited_login bob_row]]"
    using r by simp
  have c2: "last (console_logs
        (snd (exports GetLoginDataEach example_world (JStr ''chrome'') (JNum 1) JUndefined))) =
       [limited_login alice_row, limited_login bob_row]"
    using r by simp
  have c3: "console_logs
        (snd (exports GetLoginDataEach example_world (JStr ''chrome'') (JNum 1) JUndefined)) =
       [[limited_login alice_row], [limited_login alice_row, limited_login bob_row]]"
    using r by simp
  show ?thesis
    using h1 example_target_login example_open_login h4 h5 c1 c2 c3 by blast
qed

section \<open>Unsupported browsers\<close>

lemma target_file_unsupported:
  assumes "browser \<notin> {JStr ''chrome'', JStr ''opera'', JStr ''yandex''}"
    and "\<not> truthy filePath"
  shows "target_file oper w browser filePath = Returns JUndefined"
  using assms by (simp add: target_file_def getBrowserFilePath_def)

text \<open>
  Claim C5 says that an unsupported browser without an override path is answered by an
  explicit signal and not by a failure further down. For \<open>firefox\<close> the operation calls the
  opener with \<open>undefined\<close>, and what the caller gets is the opener's own exception.
\<close>

theorem getLoginData_firefox_opens_undefined:
  "getLoginData example_world (JStr ''firefox'') JUndefined JUndefined =
     (Throws (JSError ''TypeError: String expected''), [SqliteOpen JUndefined])"
  by (simp add: getLoginData_def getBrowserFilePath_def example_world_def)

text \<open>
  Claim C5, amended. For a browser identifier outside \<open>chrome\<close>, \<open>opera\<close>, \<open>yandex\<close> and no
  (truthy) override path, each operation hands \<open>undefined\<close> as the file name to the opener,
  as its first action; the caller gets no signal of the operation's own, only what the
  opener makes of that file name: its exception if the constructor throws, its error on the
  console if the open fails.
\<close>

theorem unsupported_browser_passes_undefined_to_opener:
  assumes "browser \<notin> {JStr ''chrome'', JStr ''opera'', JStr ''yandex''}"
    and "\<not> truthy filePath"
  shows "target_file oper w browser filePath = Returns JUndefined
         \<and> snd (exports oper w browser limited filePath) \<noteq> []
         \<and> hd (snd (exports oper w browser limited filePath)) = SqliteOpen JUndefined
         \<and> (case sqlite_open w JUndefined of
               CtorThrows x \<Rightarrow>
                 exports oper w browser limited filePath = (Throws x, [SqliteOpen JUndefined])
             | OpenFails e \<Rightarrow>
                 exports oper w browser limited filePath =
                   (Returns JUndefined, [SqliteOpen JUndefined, ConsoleError e])
             | Opened db \<Rightarrow>
                 fst (exports oper w browser limited filePath) = Returns JUndefined)"
proof -
  have t: "target_file oper w browser filePath = Returns JUndefined"
    using assms by (rule target_file_unsupported)
  show ?thesis
  proof (cases "sqlite_open w JUndefined")
    case (CtorThrows x)
    then show ?thesis using t exports_ctor_throws [OF t CtorThrows, of limited] by simp
  next
    case (OpenFails e)
    then show ?thesis using t exports_open_fails [OF t OpenFails, of limited] by simp
  next
    case (Opened db)
    then show ?thesis using t exports_opened_returns [OF t Opened, of limited] by simp
  qed
qed

theorem unsupported_browser_passes_undefined_to_opener_witness:
  "JStr ''firefox'' \<notin> {JStr ''chrome'', JStr ''opera'', JStr ''yandex''}
   \<and> \<not> truthy (JStr '''')
   \<and> target_file GetCookiesEach example_world (JStr ''firefox'') (JStr '''') = Returns JUndefined
   \<and> hd (snd (exports GetCookiesEach example_world (JStr ''firefox'') JNull (JStr ''''))) =
       SqliteOpen JUndefined
   \<and> exports GetCookiesEach example_world (JStr ''firefox'') JNull (JStr '''') =
       (Throws (JSError ''TypeError: String expected''), [SqliteOpen JUndefined])"
proof -
  have h1: "JStr ''firefox'' \<notin> {JStr ''chrome'', JStr ''opera'', JStr ''yandex''}"
    by simp
  have h2: "\<not> truthy (JStr '''')"
    by simp
  have o: "sqlite_open example_world JUndefined = CtorThrows (JSError ''TypeError: String expected'')"
    by (simp add: example_world_def)
  show ?thesis
    using h1 h2
      unsupported_browser_passes_undefined_to_opener
        [OF h1 h2, of GetCookiesEach example_world JNull]
    by (simp add: o del: exports.simps)
qed

section \<open>The login views\<close>

text \<open>
  Claim C6. When the login store opens and the query yields rows, the login fetch with a
  truthy limited flag logs, for each row, a record with exactly the fields \<open>originUrl\<close>,
  \<open>username\<close> and \<open>password\<close>, read from the columns \<open>origin_url\<close>, \<open>username_value\<close> and
  \<open>password_value\<close>; with a falsy flag it logs the rows as they are.
\<close>

theorem login_fetch_limited_and_unlimited:
  assumes "target_file GetLoginData w browser filePath = Returns file"
    and "sqlite_open w file = Opened db"
    and "db ''SELECT * FROM logins'' = (rows, None)"
  shows "console_logs (snd (getLoginData w browser limited filePath)) =
           [if truthy limited then map limited_login rows else rows]
         \<and> console_logs (snd (getLoginDataEach w browser limited filePath)) =
           map (\<lambda>k. take k (if truthy limited then map limited_login rows else rows))
             [1..<Suc (length rows)]
         \<and> map fst (limited_login row) = [''originUrl'', ''username'', ''password'']
         \<and> get (limited_login row) ''originUrl'' = get row ''origin_url''
         \<and> get (limited_login row) ''username'' = get row ''username_value''
         \<and> get (limited_login row) ''password'' = get row ''password_value''"
proof -
  have t': "target_file GetLoginDataEach w browser filePath = Returns file"
    using assms(1) by (simp add: target_file_Each)
  have b: "console_logs (snd (getLoginData w browser limited filePath)) =
      [if truthy limited then map limited_login rows else rows]"
    by (simp add: getLoginData_opened [OF assms(1,2)] assms(3))
  have s: "console_logs (snd (getLoginDataEach w browser limited filePath)) =
      map (\<lambda>k. take k (if truthy limited then map limited_login rows else rows))
        [1..<Suc (length rows)]"
    using getLoginDataEach_rows_prefixes [of limited rows "[]"]
    by (simp add: getLoginDataEach_opened [OF t' assms(2)] assms(3) del: upt_Suc)
  have f: "map fst (limited_login row) = [''originUrl'', ''username'', ''password'']"
    by (simp add: limited_login_def)
  have g: "get (limited_login row) ''originUrl'' = get row ''origin_url''"
    "get (limited_login row) ''username'' = get row ''username_value''"
    "get (limited_login row) ''password'' = get row ''password_value''"
    by (simp_all add: limited_login_def get_def)
  show ?thesis using b s f g by blast
qed

theorem login_fetch_limited_and_unlimited_witness:
  "target_file GetLoginData example_world (JStr ''chrome'') JUndefined =
       Returns (JStr (appdata @ chrome_dir @ ''Login Data''))
   \<and> sqlite_open example_world (JStr (appdata @ chrome_dir @ ''Login Data'')) = Opened login_db
   \<and> login_db ''SELECT * FROM logins'' = ([alice_row, bob_row], None)
   \<and> console_logs (snd (getLoginData example_world (JStr ''chrome'') (JBool True) JUndefined)) =
       [[[(''originUrl'', JStr ''https://example.com''),
          (''username'', JStr ''alice''),
          (''password'', JBlob [118, 49, 48, 7])],
         [(''originUrl'', JStr ''https://b.org''),
          (''username'', JStr ''bob''),
          (''password'', JBlob [118, 49, 48, 9])]]]
   \<and> console_logs (snd (getLoginData example_world (JStr ''chrome'') (JBool False) JUndefined)) =
       [[alice_row, bob_row]]"
proof -
  have q: "login_db ''SELECT * FROM logins'' = ([alice_row, bob_row], None)"
    by (simp add: login_db_def)
  have a: "limited_login alice_row =
      [(''originUrl'', JStr ''https://example.com''),
       (''username'', JStr ''alice''),
       (''password'', JBlob [118, 49, 48, 7])]"
    by (simp add: limited_login_def alice_row_def get_def)
  have b: "limited_login bob_row =
      [(''originUrl'', JStr ''https://b.org''),
       (''username'', JStr ''bob''),
       (''password'', JBlob [118, 49, 48, 9])]"
    by (simp add: limited_login_def bob_row_def get_def)
  have c1: "console_logs (snd (getLoginData example_world (JStr ''chrome'') (JBool True) JUndefined)) =
       [[limited_login alice_row, limited_login bob_row]]"
    using login_fetch_limited_and_unlimited
      [OF example_target_login example_open_login q, of "JBool True"] by simp
  have c2: "console_logs (snd (getLoginData example_world (JStr ''chrome'') (JBool False) JUndefined)) =
       [[alice_row, bob_row]]"
    using login_fetch_limited_and_unlimited
      [OF example_target_login example_open_login q, of "JBool False"] by simp
  show ?thesis
    using example_target_login example_open_login q c1 c2 unfolding a b by blast
qed

section \<open>The cookie view\<close>

text \<open>
  Claim C7. The limited cookie view turns each of the five flag columns into a boolean:
  \<open>secure\<close>, \<open>httpOnly\<close> (from \<open>httponly\<close>), \<open>expired\<close> (from \<open>has_expires\<close>), \<open>persistent\<close>
  and \<open>priority\<close> are \<open>true\<close> for 1 and for any other truthy value, \<open>false\<close> for 0.
\<close>

theorem cookie_flags_coerced_to_booleans:
  "get (limited_cookie row) ''secure'' = Boolean (get row ''secure'')
   \<and> get (limited_cookie row) ''httpOnly'' = Boolean (get row ''httponly'')
   \<and> get (limited_cookie row) ''expired'' = Boolean (get row ''has_expires'')
   \<and> get (limited_cookie row) ''persistent'' = Boolean (get row ''persistent'')
   \<and> get (limited_cookie row) ''priority'' = Boolean (get row ''priority'')
   \<and> Boolean (JNum 1) = JBool True
   \<and> Boolean (JNum 0) = JBool False
   \<and> Boolean (JNum n) = JBool (n \<noteq> 0)
   \<and> Boolean v = JBool (truthy v)
   \<and> getCookies_loop (JBool True) rows [] = map limited_cookie rows
   \<and> console_logs (getCookiesEach_rows (JBool True) [row] []) = [[limited_cookie row]]"
proof -
  have g: "get (limited_cookie row) ''secure'' = Boolean (get row ''secure'')"
    "get (limited_cookie row) ''httpOnly'' = Boolean (get row ''httponly'')"
    "get (limited_cookie row) ''expired'' = Boolean (get row ''has_expires'')"
    "get (limited_cookie row) ''persistent'' = Boolean (get row ''persistent'')"
    "get (limited_cookie row) ''priority'' = Boolean (get row ''priority'')"
    by (simp_all add: limited_cookie_def get_def)
  have n: "Boolean (JNum 1) = JBool True" "Boolean (JNum 0) = JBool False"
    "Boolean (JNum n) = JBool (n \<noteq> 0)" "Boolean v = JBool (truthy v)"
    by (simp_all add: Boolean_def)
  have l: "getCookies_loop (JBool True) rows [] = map limited_cookie rows"
    by (simp add: getCookies_loop_map)
  have e: "console_logs (getCookiesEach_rows (JBool True) [row] []) = [[limited_cookie row]]"
    by simp
  show ?thesis using g n l e by blast
qed

text \<open>
  Claim C9. The field \<open>value\<close> of the limited cookie view is the column
  \<open>encrypted_value\<close>; the column \<open>value\<close> has no part in the view, which stays the same
  whatever that column holds.
\<close>

theorem cookie_value_is_encrypted_value:
  "get (limited_cookie row) ''value'' = get row ''encrypted_value''
   \<and> limited_cookie ((''value'', v) # row) = limited_cookie row
   \<and> get cookie_row ''value'' = JStr ''plain''
   \<and> get (limited_cookie cookie_row) ''value'' = JBlob [118, 49, 48, 1]
   \<and> getCookies_loop (JBool True) rows [] = map limited_cookie rows
   \<and> console_logs (getCookiesEach_rows (JBool True) [row] []) = [[limited_cookie row]]"
proof -
  have g: "get (limited_cookie row) ''value'' = get row ''encrypted_value''"
    by (simp add: limited_cookie_def get_def)
  have i: "limited_cookie ((''value'', v) # row) = limited_cookie row"
    by (simp add: limited_cookie_def get_def)
  have c: "get cookie_row ''value'' = JStr ''plain''"
    "get (limited_cookie cookie_row) ''value'' = JBlob [118, 49, 48, 1]"
    by (simp_all add: limited_cookie_def cookie_row_def get_def)
  have l: "getCookies_loop (JBool True) rows [] = map limited_cookie rows"
    by (simp add: getCookies_loop_map)
  have e: "console_logs (getCookiesEach_rows (JBool True) [row] []) = [[limited_cookie row]]"
    by simp
  show ?thesis using g i c l e by blast
qed

section \<open>What the caller gets\<close>

text \<open>
  Claim C10 says that every exported function returns \<open>undefined\<close> for every input. Where
  \<open>LOCALAPPDATA\<close> is not set, \<open>path.join\<close> throws on it, and \<open>getLoginData\<close> for \<open>chrome\<close>
  without an override path throws instead of returning.
\<close>

theorem getLoginData_throws_without_LOCALAPPDATA:
  "getLoginData unset_world (JStr ''chrome'') JUndefined JUndefined =
     (Throws (JSError ''TypeError [ERR_INVALID_ARG_TYPE]''), [])"
  by (simp add: getLoginData_def getBrowserFilePath_def unset_world_def example_world_def)

text \<open>
  Claim C10, amended. Every exported function returns \<open>undefined\<close> unless \<open>path.join\<close>
  (called when no override path is given and the browser is known) or the database
  constructor throws; then that exception reaches the caller. The records are never
  returned: they appear in console output only.
\<close>

theorem exports_return_undefined_unless_thrown:
  "fst (exports oper w browser limited filePath) =
     (case target_file oper w browser filePath of
        Throws x \<Rightarrow> Throws x
      | Returns file \<Rightarrow>
          (case sqlite_open w file of
             CtorThrows x \<Rightarrow> Throws x
           | OpenFails e \<Rightarrow> Returns JUndefined
           | Opened db \<Rightarrow> Returns JUndefined))"
proof (cases "target_file oper w browser filePath")
  case (Throws x)
  then show ?thesis by (simp add: exports_resolver_throws [OF Throws])
next
  case (Returns f)
  show ?thesis
  proof (cases "sqlite_open w f")
    case (CtorThrows x)
    then show ?thesis using Returns by (simp add: exports_ctor_throws [OF Returns CtorThrows])
  next
    case (OpenFails e)
    then show ?thesis using Returns by (simp add: exports_open_fails [OF Returns OpenFails])
  next
    case (Opened db)
    then show ?thesis using Returns by (simp add: exports_opened_returns [OF Returns Opened])
  qed
qed

end
